theory Spec2Isabelle
  imports Complex_Main
begin

section \<open>Numbers and errors\<close>

text \<open>
  The program computes with Python floats; the embedding uses the real numbers, so every
  statement below is about the exact arithmetic the formulas denote. Two things the floats
  do have no counterpart here: a power that leaves the range of the floats raises
  \<^verbatim>\<open>OverflowError\<close> (an amortization period of thousands of years does that to the
  annuity factor), and every operation rounds. Nothing below speaks about rounding or
  overflow. A float division by zero raises \<^verbatim>\<open>ZeroDivisionError\<close> in Python; reading
  the last row of an empty table raises \<^verbatim>\<open>IndexError\<close>, a missing dictionary key
  \<^verbatim>\<open>KeyError\<close>. A division by zero with a numpy operand raises nothing and gives an
  infinity or a nan: no real number is its result, and \<open>Non_Finite\<close> stands for it. All
  are values of the result type here.
\<close>

datatype py_error = ZeroDivisionError | IndexError | KeyError | Non_Finite

definition py_div :: "real \<Rightarrow> real \<Rightarrow> py_error + real" where
  "py_div a b = (if b = 0 then Inl ZeroDivisionError else Inr (a / b))"

section \<open>Debt service and remaining balance\<close>

text \<open>
  \<^verbatim>\<open>calculate_debt_service(year, loan_amount, interest_rate, amortization, io_period)\<close>.
  The exponent \<^verbatim>\<open>remaining_payments\<close> is a positive integer where the power is taken.
  The power is the real one: it does not overflow, and \<open>1 + monthly_rate\<close> is 1 only for
  a rate of 0.
\<close>

definition calculate_debt_service :: "int \<Rightarrow> real \<Rightarrow> real \<Rightarrow> int \<Rightarrow> int \<Rightarrow> py_error + real" where
  "calculate_debt_service year loan_amount interest_rate amortization io_period =
     (if year \<le> io_period \<or> loan_amount = 0 then Inr (loan_amount * (interest_rate / 100))
      else
        let monthly_rate = interest_rate / 100 / 12;
            remaining_payments = (amortization - io_period) * 12
        in if remaining_payments \<le> 0 then Inr 0
           else
             (case py_div (loan_amount * (monthly_rate * (1 + monthly_rate) powi remaining_payments))
                          ((1 + monthly_rate) powi remaining_payments - 1) of
                Inl e \<Rightarrow> Inl e
              | Inr monthly_pmt \<Rightarrow> Inr (monthly_pmt * 12)))"

text \<open>
  \<^verbatim>\<open>calc_remaining_balance(loan_amount, interest_rate, amortization, io_period, holding_period)\<close>.
\<close>

definition calc_remaining_balance :: "real \<Rightarrow> real \<Rightarrow> int \<Rightarrow> int \<Rightarrow> int \<Rightarrow> py_error + real" where
  "calc_remaining_balance loan_amount interest_rate amortization io_period holding_period =
     (if holding_period \<le> io_period \<or> loan_amount = 0 then Inr loan_amount
      else
        let monthly_rate = interest_rate / 100 / 12;
            total_pmts = (amortization - io_period) * 12;
            remaining_pmts = (amortization - holding_period) * 12
        in if remaining_pmts \<le> 0 then Inr 0
           else
             (case py_div (loan_amount * (monthly_rate * (1 + monthly_rate) powi total_pmts))
                          ((1 + monthly_rate) powi total_pmts - 1) of
                Inl e \<Rightarrow> Inl e
              | Inr monthly_pmt \<Rightarrow>
                  py_div (monthly_pmt * ((1 + monthly_rate) powi remaining_pmts - 1))
                         (monthly_rate * (1 + monthly_rate) powi remaining_pmts)))"

section \<open>The year-by-year cash-flow projection\<close>

datatype property_type = Single_Family | Multifamily | Office | Retail

text \<open>One row of the cash-flow table; the fields are the keys of the row dictionary.\<close>

record yearly_cash_flow =
  Year :: int
  Gross_Income :: real
  EGI :: real
  OpEx :: real
  Mgmt_Fees :: real
  CapEx :: real
  NOI :: real
  Debt_Service :: real
  BTCF :: real
  Taxes :: real
  ATCF :: real
  CoC_Return :: real

text \<open>
  The inner loop \<^verbatim>\<open>for month in range(12)\<close> of \<^verbatim>\<open>calculate_cash_flows\<close>, on the
  triple \<open>(interest_expense, principal_paid_this_year, temp_balance)\<close>.
\<close>

fun amortize_months :: "nat \<Rightarrow> real \<Rightarrow> real \<Rightarrow> real \<times> real \<times> real \<Rightarrow> real \<times> real \<times> real" where
  "amortize_months 0 monthly_payment monthly_rate s = s"
| "amortize_months (Suc n) monthly_payment monthly_rate (interest_expense, principal_paid_this_year, temp_balance) =
     (let monthly_interest = temp_balance * monthly_rate;
          monthly_principal = monthly_payment - monthly_interest
      in amortize_months n monthly_payment monthly_rate
           (interest_expense + monthly_interest,
            principal_paid_this_year + monthly_principal,
            temp_balance - monthly_principal))"

text \<open>
  The block "Calculate interest expense" of one year: from the balance at the start of the
  year to \<open>(interest_expense, principal_paid_this_year, current_loan_balance)\<close> at its end.
\<close>

definition interest_and_principal ::
  "int \<Rightarrow> real \<Rightarrow> real \<Rightarrow> real \<Rightarrow> int \<Rightarrow> int \<Rightarrow> real \<Rightarrow> py_error + (real \<times> real \<times> real)" where
  "interest_and_principal year loan_amount interest_rate monthly_rate amortization io_period current_loan_balance =
     (if loan_amount = 0 then Inr (0, 0, current_loan_balance)
      else if year \<le> io_period then Inr (current_loan_balance * (interest_rate / 100), 0, current_loan_balance)
      else if amortization > io_period then
        (let remaining_payments = (amortization - io_period) * 12
         in case py_div (loan_amount * (monthly_rate * (1 + monthly_rate) powi remaining_payments))
                        ((1 + monthly_rate) powi remaining_payments - 1) of
              Inl e \<Rightarrow> Inl e
            | Inr monthly_payment \<Rightarrow>
                Inr (amortize_months 12 monthly_payment monthly_rate (0, 0, current_loan_balance)))
      else Inr (0, 0, current_loan_balance))"

text \<open>The body of the loop over the years: the row of the year and the balance after it.\<close>

definition cash_flow_year ::
  "property_type \<Rightarrow> real list \<Rightarrow> real \<Rightarrow> real \<Rightarrow> real \<Rightarrow> real \<Rightarrow> real \<Rightarrow> int \<Rightarrow> real \<Rightarrow> real
   \<Rightarrow> real \<Rightarrow> real \<Rightarrow> int \<Rightarrow> int \<Rightarrow> real \<Rightarrow> real \<Rightarrow> real \<Rightarrow> real
   \<Rightarrow> int \<Rightarrow> real \<Rightarrow> py_error + (yearly_cash_flow \<times> real)" where
  "cash_flow_year property_type unit_rents annual_rent_total rent_growth vacancy opex_per_unit_or_sf
       opex_growth units_or_sf management_fee capex_per_unit_or_sf loan_amount interest_rate
       amortization io_period equity_required tax_rate annual_depreciation monthly_rate
       year current_loan_balance =
     (let gri = (if property_type = Single_Family \<or> property_type = Multifamily
                 then sum_list (map (\<lambda>rent. rent * (1 + rent_growth / 100) powi (year - 1)) unit_rents) * 12
                 else annual_rent_total * (1 + rent_growth / 100) powi (year - 1));
          egi = gri * (1 - vacancy / 100);
          opex = (if property_type = Single_Family
                  then opex_per_unit_or_sf * (1 + opex_growth / 100) powi (year - 1)
                  else opex_per_unit_or_sf * of_int units_or_sf * (1 + opex_growth / 100) powi (year - 1));
          mgmt = egi * (management_fee / 100);
          capex = (if property_type = Single_Family then capex_per_unit_or_sf
                   else capex_per_unit_or_sf * of_int units_or_sf);
          noi = egi - opex - mgmt;
          ncf = noi - capex
      in case calculate_debt_service year loan_amount interest_rate amortization io_period of
           Inl e \<Rightarrow> Inl e
         | Inr ds \<Rightarrow>
            (case interest_and_principal year loan_amount interest_rate monthly_rate amortization
                    io_period current_loan_balance of
               Inl e \<Rightarrow> Inl e
             | Inr (interest_expense, principal_paid_this_year, new_balance) \<Rightarrow>
                 (let btcf = ncf - ds;
                      taxable_income = noi - interest_expense - annual_depreciation;
                      taxes = (if tax_rate > 0 then max 0 (taxable_income * (tax_rate / 100)) else 0);
                      atcf = (if tax_rate > 0 then btcf - taxes else btcf);
                      coc = (if equity_required > 0 then (btcf / equity_required) * 100 else 0)
                  in Inr (\<lparr>Year = year, Gross_Income = gri, EGI = egi, OpEx = opex, Mgmt_Fees = mgmt,
                           CapEx = capex, NOI = noi, Debt_Service = ds, BTCF = btcf,
                           Taxes = (if tax_rate > 0 then taxes else 0),
                           ATCF = (if tax_rate > 0 then atcf else btcf),
                           CoC_Return = coc\<rparr>, new_balance))))"

text \<open>
  The loop \<^verbatim>\<open>for year in range(1, holding_period + 1)\<close>: the state is the running
  balance and the rows appended so far; an exception in a year ends the run.
\<close>

fun run_years ::
  "(int \<Rightarrow> real \<Rightarrow> py_error + (yearly_cash_flow \<times> real)) \<Rightarrow> int list \<Rightarrow> real
   \<Rightarrow> py_error + (yearly_cash_flow list \<times> real)" where
  "run_years body [] current_loan_balance = Inr ([], current_loan_balance)"
| "run_years body (year # years) current_loan_balance =
     (case body year current_loan_balance of
        Inl e \<Rightarrow> Inl e
      | Inr (row, new_balance) \<Rightarrow>
          (case run_years body years new_balance of
             Inl e \<Rightarrow> Inl e
           | Inr (rows, final_balance) \<Rightarrow> Inr (row # rows, final_balance)))"

text \<open>
  \<^verbatim>\<open>calculate_cash_flows\<close> with its local state: the rows (\<^verbatim>\<open>cash_flow_data\<close>)
  and \<^verbatim>\<open>current_loan_balance\<close> when the loop ends. The function itself returns the rows.
\<close>

definition calculate_cash_flows_state ::
  "property_type \<Rightarrow> int \<Rightarrow> real list \<Rightarrow> real \<Rightarrow> real \<Rightarrow> real \<Rightarrow> real \<Rightarrow> real \<Rightarrow> int \<Rightarrow> real
   \<Rightarrow> real \<Rightarrow> real \<Rightarrow> real \<Rightarrow> int \<Rightarrow> int \<Rightarrow> real \<Rightarrow> real \<Rightarrow> real
   \<Rightarrow> py_error + (yearly_cash_flow list \<times> real)" where
  "calculate_cash_flows_state property_type holding_period unit_rents annual_rent_total rent_growth
       vacancy opex_per_unit_or_sf opex_growth units_or_sf management_fee capex_per_unit_or_sf
       loan_amount interest_rate amortization io_period equity_required tax_rate annual_depreciation =
     (let current_loan_balance = loan_amount;
          monthly_rate = (if interest_rate > 0 then interest_rate / 100 / 12 else 0)
      in run_years
           (cash_flow_year property_type unit_rents annual_rent_total rent_growth vacancy
              opex_per_unit_or_sf opex_growth units_or_sf management_fee capex_per_unit_or_sf
              loan_amount interest_rate amortization io_period equity_required tax_rate
              annual_depreciation monthly_rate)
           [1..holding_period] current_loan_balance)"

definition calculate_cash_flows ::
  "property_type \<Rightarrow> int \<Rightarrow> real list \<Rightarrow> real \<Rightarrow> real \<Rightarrow> real \<Rightarrow> real \<Rightarrow> real \<Rightarrow> int \<Rightarrow> real
   \<Rightarrow> real \<Rightarrow> real \<Rightarrow> real \<Rightarrow> int \<Rightarrow> int \<Rightarrow> real \<Rightarrow> real \<Rightarrow> real
   \<Rightarrow> py_error + yearly_cash_flow list" where
  "calculate_cash_flows property_type holding_period unit_rents annual_rent_total rent_growth
       vacancy opex_per_unit_or_sf opex_growth units_or_sf management_fee capex_per_unit_or_sf
       loan_amount interest_rate amortization io_period equity_required tax_rate annual_depreciation =
     (case calculate_cash_flows_state property_type holding_period unit_rents annual_rent_total
             rent_growth vacancy opex_per_unit_or_sf opex_growth units_or_sf management_fee
             capex_per_unit_or_sf loan_amount interest_rate amortization io_period equity_required
             tax_rate annual_depreciation of
        Inl e \<Rightarrow> Inl e
      | Inr (cash_flow_data, final_balance) \<Rightarrow> Inr cash_flow_data)"

section \<open>The valuation script\<close>

text \<open>
  The values read from the input form, under the names of the variables that hold them.
  \<open>unit_rents\<close> is the list the form builds: the one monthly rent of a single-family
  house, the rents of the units of a multifamily building, empty for office and retail.
\<close>

record inputs =
  property_type :: property_type
  units_or_sf :: int
  unit_rents :: "real list"
  rent_per_sf :: real
  purchase_price :: real
  closing_costs :: real
  rent_growth :: real
  vacancy :: real
  opex_per_unit_or_sf :: real
  opex_growth :: real
  capex_per_unit_or_sf :: real
  management_fee :: real
  loan_to_value :: real
  interest_rate :: real
  amortization :: int
  io_period :: int
  holding_period :: int
  exit_cap_rate :: real
  selling_costs :: real
  discount_rate :: real
  tax_rate :: real
  building_value_pct :: real

definition annual_rent_total :: "inputs \<Rightarrow> real" where
  "annual_rent_total d =
     (if property_type d = Single_Family \<or> property_type d = Multifamily
      then sum_list (unit_rents d) * 12
      else rent_per_sf d * of_int (units_or_sf d))"

definition total_acquisition :: "inputs \<Rightarrow> real" where
  "total_acquisition d = purchase_price d + closing_costs d"

definition loan_amount :: "inputs \<Rightarrow> real" where
  "loan_amount d = purchase_price d * (loan_to_value d / 100)"

definition equity_required :: "inputs \<Rightarrow> real" where
  "equity_required d = total_acquisition d - loan_amount d"

definition year_1_gri :: "inputs \<Rightarrow> real" where
  "year_1_gri d = annual_rent_total d"

definition year_1_egi :: "inputs \<Rightarrow> real" where
  "year_1_egi d = year_1_gri d * (1 - vacancy d / 100)"

definition year_1_opex :: "inputs \<Rightarrow> real" where
  "year_1_opex d =
     (if property_type d = Single_Family then opex_per_unit_or_sf d
      else opex_per_unit_or_sf d * of_int (units_or_sf d))"

definition year_1_mgmt :: "inputs \<Rightarrow> real" where
  "year_1_mgmt d = year_1_egi d * (management_fee d / 100)"

definition year_1_noi :: "inputs \<Rightarrow> real" where
  "year_1_noi d = year_1_egi d - year_1_opex d - year_1_mgmt d"

definition annual_depreciation :: "inputs \<Rightarrow> real" where
  "annual_depreciation d =
     (if tax_rate d > 0 then
        (let building_value = purchase_price d * (building_value_pct d / 100)
         in if property_type d = Single_Family \<or> property_type d = Multifamily
            then building_value / 27.5 else building_value / 39)
      else 0)"

definition cf_df :: "inputs \<Rightarrow> py_error + yearly_cash_flow list" where
  "cf_df d =
     calculate_cash_flows (property_type d) (holding_period d) (unit_rents d) (annual_rent_total d)
       (rent_growth d) (vacancy d) (opex_per_unit_or_sf d) (opex_growth d) (units_or_sf d)
       (management_fee d) (capex_per_unit_or_sf d) (loan_amount d) (interest_rate d)
       (amortization d) (io_period d) (equity_required d) (tax_rate d) (annual_depreciation d)"

text \<open>Terminal analysis. \<^verbatim>\<open>cf_df.iloc[-1]\<close> raises on a table without rows.\<close>

definition final_noi :: "inputs \<Rightarrow> py_error + real" where
  "final_noi d =
     (case cf_df d of
        Inl e \<Rightarrow> Inl e
      | Inr rows \<Rightarrow> if rows = [] then Inl IndexError else Inr (NOI (last rows)))"

definition terminal_noi :: "inputs \<Rightarrow> py_error + real" where
  "terminal_noi d =
     (case final_noi d of Inl e \<Rightarrow> Inl e | Inr n \<Rightarrow> Inr (n * (1 + rent_growth d / 100)))"

definition sale_price :: "inputs \<Rightarrow> py_error + real" where
  "sale_price d =
     (case terminal_noi d of
        Inl e \<Rightarrow> Inl e
      | Inr t \<Rightarrow> if exit_cap_rate d > 0 then py_div t (exit_cap_rate d / 100) else Inr 0)"

definition sale_costs :: "inputs \<Rightarrow> py_error + real" where
  "sale_costs d =
     (case sale_price d of Inl e \<Rightarrow> Inl e | Inr sp \<Rightarrow> Inr (sp * (selling_costs d / 100)))"

definition remaining_balance :: "inputs \<Rightarrow> py_error + real" where
  "remaining_balance d =
     calc_remaining_balance (loan_amount d) (interest_rate d) (amortization d) (io_period d)
       (holding_period d)"

definition net_sale_proceeds :: "inputs \<Rightarrow> py_error + real" where
  "net_sale_proceeds d =
     (case sale_price d of
        Inl e \<Rightarrow> Inl e
      | Inr sp \<Rightarrow>
         (case sale_costs d of
            Inl e \<Rightarrow> Inl e
          | Inr sc \<Rightarrow>
             (case remaining_balance d of
                Inl e \<Rightarrow> Inl e
              | Inr rb \<Rightarrow> Inr (sp - sc - rb))))"

text \<open>Returns. \<^verbatim>\<open>cash_flows[-1] += net_sale_proceeds\<close> on a list that is never empty.\<close>

definition add_to_last :: "real list \<Rightarrow> real \<Rightarrow> real list" where
  "add_to_last xs v = butlast xs @ [last xs + v]"

definition yearly_series :: "inputs \<Rightarrow> py_error + real list" where
  "yearly_series d =
     (case cf_df d of
        Inl e \<Rightarrow> Inl e
      | Inr rows \<Rightarrow> Inr (if tax_rate d > 0 then map ATCF rows else map BTCF rows))"

definition cash_flows :: "inputs \<Rightarrow> py_error + real list" where
  "cash_flows d =
     (case net_sale_proceeds d of
        Inl e \<Rightarrow> Inl e
      | Inr nsp \<Rightarrow>
         (case yearly_series d of
            Inl e \<Rightarrow> Inl e
          | Inr series \<Rightarrow> Inr (add_to_last ([- equity_required d] @ series) nsp)))"

text \<open>
  The expression of the equity multiple, on the yearly series, the net sale proceeds and the
  equity; and the variable \<^verbatim>\<open>equity_multiple\<close> of the script.
\<close>

definition equity_multiple_expr :: "real list \<Rightarrow> real \<Rightarrow> real \<Rightarrow> py_error + real" where
  "equity_multiple_expr series nsp equity =
     (if equity > 0 then py_div (sum_list series + nsp) equity else Inr 0)"

definition equity_multiple :: "inputs \<Rightarrow> py_error + real" where
  "equity_multiple d =
     (case net_sale_proceeds d of
        Inl e \<Rightarrow> Inl e
      | Inr nsp \<Rightarrow>
         (case yearly_series d of
            Inl e \<Rightarrow> Inl e
          | Inr series \<Rightarrow> equity_multiple_expr series nsp (equity_required d)))"

text \<open>
  IRR and NPV come from a numerical library that is not part of the sources; the two
  functions are parameters here: \<open>npf_irr\<close> for the solver and \<open>npf_npv\<close> for the
  discounted sum. A result \<open>Inl Non_Finite\<close> of a parameter is a nan or an infinity the
  library returns (the solver returns nan when it finds no rate); any other \<open>Inl\<close> is an
  exception it raises. The script catches an exception of the IRR solver and reports 0, a
  returned nan stays a nan; the NPV is not guarded.
\<close>

definition irr :: "(real list \<Rightarrow> py_error + real) \<Rightarrow> inputs \<Rightarrow> py_error + real" where
  "irr npf_irr d =
     (case cash_flows d of
        Inl e \<Rightarrow> Inl e
      | Inr flows \<Rightarrow>
         (case npf_irr flows of
            Inl e \<Rightarrow> if e = Non_Finite then Inl Non_Finite else Inr 0
          | Inr v \<Rightarrow> Inr (v * 100)))"

definition npv :: "(real \<Rightarrow> real list \<Rightarrow> py_error + real) \<Rightarrow> inputs \<Rightarrow> py_error + real" where
  "npv npf_npv d =
     (case cash_flows d of
        Inl e \<Rightarrow> Inl e
      | Inr flows \<Rightarrow> npf_npv (discount_rate d / 100) flows)"

section \<open>Sensitivity analysis\<close>

text \<open>
  The tabs of the sensitivity analysis run after the valuation and read its variables
  \<^verbatim>\<open>year_1_noi\<close>, \<^verbatim>\<open>remaining_balance\<close> and \<^verbatim>\<open>equity_required\<close>.
\<close>

datatype sensitivity_var =
  Exit_Cap_Rate | Rent_Growth_Rate | Interest_Rate | Vacancy_Rate | OpEx_Growth_Rate

datatype metric = IRR | NPV | Equity_Multiple

text \<open>The metric of the valuation itself, to compare the sensitivity results with.\<close>

definition main_metric ::
  "(real list \<Rightarrow> py_error + real) \<Rightarrow> (real \<Rightarrow> real list \<Rightarrow> py_error + real) \<Rightarrow> inputs \<Rightarrow> metric
   \<Rightarrow> py_error + real" where
  "main_metric npf_irr npf_npv d m =
     (case m of IRR \<Rightarrow> irr npf_irr d | NPV \<Rightarrow> npv npf_npv d | Equity_Multiple \<Rightarrow> equity_multiple d)"

text \<open>Division with a numpy operand.\<close>

definition np_div :: "real \<Rightarrow> real \<Rightarrow> py_error + real" where
  "np_div a b = (if b = 0 then Inl Non_Finite else Inr (a / b))"

text \<open>\<^verbatim>\<open>base_val\<close>: the base value of a tested variable.\<close>

definition base_val :: "inputs \<Rightarrow> sensitivity_var \<Rightarrow> real" where
  "base_val d test_var =
     (case test_var of
        Exit_Cap_Rate \<Rightarrow> exit_cap_rate d
      | Rent_Growth_Rate \<Rightarrow> rent_growth d
      | Interest_Rate \<Rightarrow> interest_rate d
      | Vacancy_Rate \<Rightarrow> vacancy d
      | OpEx_Growth_Rate \<Rightarrow> opex_growth d)"

text \<open>\<^verbatim>\<open>capex_annual\<close>, computed alike in both loops.\<close>

definition capex_annual :: "inputs \<Rightarrow> real" where
  "capex_annual d =
     (if property_type d = Single_Family then capex_per_unit_or_sf d
      else capex_per_unit_or_sf d * of_int (units_or_sf d))"

text \<open>
  The part the one-way and the two-way loop have in common, from \<^verbatim>\<open>noi_values\<close> to
  \<^verbatim>\<open>result\<close>. The sale price is divided with a numpy operand when the rent growth or the
  exit cap rate is a tested variable, with Python floats otherwise; inside the
  \<^verbatim>\<open>try\<close> an exception of the library gives 0, a nan it returns stays a nan.
\<close>

definition sensitivity_result ::
  "(real list \<Rightarrow> py_error + real) \<Rightarrow> (real \<Rightarrow> real list \<Rightarrow> py_error + real) \<Rightarrow> inputs \<Rightarrow> metric
   \<Rightarrow> real \<Rightarrow> real \<Rightarrow> bool \<Rightarrow> real \<Rightarrow> real \<Rightarrow> py_error + real" where
  "sensitivity_result npf_irr npf_npv d metric_choice test_rent_gr test_exit numpy_operand
       temp_annual_ds remaining_balance_value =
     (let years = [1..holding_period d];
          noi_values = map (\<lambda>year. year_1_noi d * ((1 + test_rent_gr / 100) powi (year - 1))) years;
          ncf_values = map (\<lambda>v. v - capex_annual d) noi_values;
          temp_cf_list = map (\<lambda>v. v - temp_annual_ds) ncf_values;
          final_noi = year_1_noi d * ((1 + test_rent_gr / 100) powi holding_period d)
      in case (if numpy_operand then np_div final_noi (test_exit / 100)
               else py_div final_noi (test_exit / 100)) of
           Inl e \<Rightarrow> Inl e
         | Inr temp_sale \<Rightarrow>
            (let temp_proceeds = temp_sale * 0.94 - remaining_balance_value;
                 flows = add_to_last ([- equity_required d] @ temp_cf_list) temp_proceeds
             in case metric_choice of
                  IRR \<Rightarrow>
                    (case npf_irr flows of
                       Inl e \<Rightarrow> if e = Non_Finite then Inl Non_Finite else Inr 0
                     | Inr v \<Rightarrow> Inr (v * 100))
                | NPV \<Rightarrow>
                    (case npf_npv (discount_rate d / 100) flows of
                       Inl e \<Rightarrow> if e = Non_Finite then Inl Non_Finite else Inr 0
                     | Inr v \<Rightarrow> Inr v)
                | Equity_Multiple \<Rightarrow> np_div (sum_list temp_cf_list + temp_proceeds) (equity_required d)))"

text \<open>
  One value of the one-way loop. \<^verbatim>\<open>test_vac\<close> and \<^verbatim>\<open>test_opex_gr\<close> are assigned as in
  the source. A tested interest rate is a numpy float, and then the division inside
  \<^verbatim>\<open>calculate_debt_service\<close> does not raise.
\<close>

definition one_way_result ::
  "(real list \<Rightarrow> py_error + real) \<Rightarrow> (real \<Rightarrow> real list \<Rightarrow> py_error + real) \<Rightarrow> inputs
   \<Rightarrow> sensitivity_var \<Rightarrow> metric \<Rightarrow> real \<Rightarrow> py_error + real" where
  "one_way_result npf_irr npf_npv d test_var one_metric test_val =
     (case remaining_balance d of
        Inl e \<Rightarrow> Inl e
      | Inr remaining_balance_value \<Rightarrow>
         (let test_rent_gr = (if test_var \<noteq> Rent_Growth_Rate then rent_growth d else test_val);
              test_vac = (if test_var \<noteq> Vacancy_Rate then vacancy d else test_val);
              test_opex_gr = (if test_var \<noteq> OpEx_Growth_Rate then opex_growth d else test_val);
              test_exit = (if test_var \<noteq> Exit_Cap_Rate then exit_cap_rate d else test_val);
              test_int = (if test_var \<noteq> Interest_Rate then interest_rate d else test_val)
          in case calculate_debt_service 1 (loan_amount d) test_int (amortization d) (io_period d) of
               Inl e \<Rightarrow> Inl (if test_var = Interest_Rate then Non_Finite else e)
             | Inr temp_annual_ds \<Rightarrow>
                 sensitivity_result npf_irr npf_npv d one_metric test_rent_gr test_exit
                   (test_var = Rent_Growth_Rate \<or> test_var = Exit_Cap_Rate)
                   temp_annual_ds remaining_balance_value))"

text \<open>One cell of the two-way grid.\<close>

definition two_way_cell ::
  "(real list \<Rightarrow> py_error + real) \<Rightarrow> (real \<Rightarrow> real list \<Rightarrow> py_error + real) \<Rightarrow> inputs
   \<Rightarrow> sensitivity_var \<Rightarrow> sensitivity_var \<Rightarrow> metric \<Rightarrow> real \<Rightarrow> real \<Rightarrow> py_error + real" where
  "two_way_cell npf_irr npf_npv d var1 var2 metric_choice val1 val2 =
     (case remaining_balance d of
        Inl e \<Rightarrow> Inl e
      | Inr remaining_balance_value \<Rightarrow>
         (let test_rent_gr = (if var1 \<noteq> Rent_Growth_Rate \<and> var2 \<noteq> Rent_Growth_Rate then rent_growth d
                              else if var1 = Rent_Growth_Rate then val1 else val2);
              test_vac = (if var1 \<noteq> Vacancy_Rate \<and> var2 \<noteq> Vacancy_Rate then vacancy d
                          else if var1 = Vacancy_Rate then val1 else val2);
              test_opex_gr = (if var1 \<noteq> OpEx_Growth_Rate \<and> var2 \<noteq> OpEx_Growth_Rate then opex_growth d
                              else if var1 = OpEx_Growth_Rate then val1 else val2);
              test_exit = (if var1 \<noteq> Exit_Cap_Rate \<and> var2 \<noteq> Exit_Cap_Rate then exit_cap_rate d
                           else if var1 = Exit_Cap_Rate then val1 else val2);
              test_int = (if var1 \<noteq> Interest_Rate \<and> var2 \<noteq> Interest_Rate then interest_rate d
                          else if var1 = Interest_Rate then val1 else val2)
          in case (if test_int \<noteq> interest_rate d then
                     (let test_monthly_rate = test_int / 100 / 12;
                          remaining_payments = (amortization d - io_period d) * 12
                      in if amortization d > io_period d
                         then np_div (12 * loan_amount d
                                        * (test_monthly_rate * (1 + test_monthly_rate) powi remaining_payments))
                                     ((1 + test_monthly_rate) powi remaining_payments - 1)
                         else Inr (loan_amount d * test_int / 100))
                   else
                     (case calculate_debt_service 1 (loan_amount d) test_int (amortization d) (io_period d) of
                        Inl e \<Rightarrow> Inl (if var1 = Interest_Rate \<or> var2 = Interest_Rate then Non_Finite else e)
                      | Inr ds \<Rightarrow> Inr ds)) of
               Inl e \<Rightarrow> Inl e
             | Inr temp_annual_ds \<Rightarrow>
                 sensitivity_result npf_irr npf_npv d metric_choice test_rent_gr test_exit
                   (var1 = Rent_Growth_Rate \<or> var2 = Rent_Growth_Rate
                    \<or> var1 = Exit_Cap_Rate \<or> var2 = Exit_Cap_Rate)
                   temp_annual_ds remaining_balance_value))"

section \<open>Deal recommendation\<close>

text \<open>
  The action and the entries of the strengths and risks lists are formatted texts in the
  source; here an entry is a constructor with the values the text is formatted from: the
  category, its score, its cap and its percentage, or the metric.
\<close>

datatype action = Strong_Buy | Buy | Hold | Pass | Hard_Pass | Review_Needed

datatype confidence = HIGH | MODERATE | LOW | Not_Available

datatype strength =
    Category_Strength string real real real
  | Superior_IRR real
  | Positive_NPV real
  | Strong_Equity_Multiple real

datatype risk =
    Category_Risk string real real real
  | Low_IRR real
  | Negative_NPV
  | Long_Hold real

record category_data =
  score :: real
  max' :: real

record recommendation =
  action :: action
  summary :: string
  strengths :: "strength list"
  risks :: "risk list"
  actions :: "string list"
  confidence :: confidence

text \<open>\<^verbatim>\<open>d.get(k, fallback)\<close> and \<^verbatim>\<open>d[k]\<close> on a dictionary of numbers.\<close>

definition dict_get :: "(string \<rightharpoonup> real) \<Rightarrow> string \<Rightarrow> real \<Rightarrow> real" where
  "dict_get m k fallback = (case m k of None \<Rightarrow> fallback | Some v \<Rightarrow> v)"

definition dict_index :: "(string \<rightharpoonup> real) \<Rightarrow> string \<Rightarrow> py_error + real" where
  "dict_index m k = (case m k of None \<Rightarrow> Inl KeyError | Some v \<Rightarrow> Inr v)"

text \<open>
  The two loops over \<^verbatim>\<open>score_breakdown.items()\<close>, in the order of the dictionary;
  \<^verbatim>\<open>data['score'] / data['max']\<close> raises on a cap of 0.
\<close>

fun category_strengths :: "(string \<times> category_data) list \<Rightarrow> py_error + strength list" where
  "category_strengths [] = Inr []"
| "category_strengths ((category, data) # rest) =
     (case py_div (score data) (max' data) of
        Inl e \<Rightarrow> Inl e
      | Inr q \<Rightarrow>
         (let pct = q * 100
          in case category_strengths rest of
               Inl e \<Rightarrow> Inl e
             | Inr found \<Rightarrow>
                 Inr (if pct \<ge> 80 then Category_Strength category (score data) (max' data) pct # found
                      else found)))"

fun category_risks :: "(string \<times> category_data) list \<Rightarrow> py_error + risk list" where
  "category_risks [] = Inr []"
| "category_risks ((category, data) # rest) =
     (case py_div (score data) (max' data) of
        Inl e \<Rightarrow> Inl e
      | Inr q \<Rightarrow>
         (let pct = q * 100
          in case category_risks rest of
               Inl e \<Rightarrow> Inl e
             | Inr found \<Rightarrow>
                 Inr (if pct < 50 then Category_Risk category (score data) (max' data) pct # found
                      else found)))"

text \<open>The body of the \<^verbatim>\<open>try\<close> block of \<^verbatim>\<open>generate_recommendation\<close>.\<close>

definition recommendation_body ::
  "real \<Rightarrow> (string \<times> category_data) list \<Rightarrow> (string \<rightharpoonup> real) \<Rightarrow> (string \<rightharpoonup> real)
   \<Rightarrow> py_error + recommendation" where
  "recommendation_body total_score score_breakdown metrics property_data =
     (case category_strengths score_breakdown of
        Inl e \<Rightarrow> Inl e
      | Inr cat_strengths \<Rightarrow>
         (let strengths1 = cat_strengths
                @ (if dict_get metrics ''irr'' 0 \<ge> 15 then [Superior_IRR (dict_get metrics ''irr'' 0)] else [])
                @ (if dict_get metrics ''npv'' 0 > 0 then [Positive_NPV (dict_get metrics ''npv'' 0)] else [])
                @ (if dict_get metrics ''equity_multiple'' 0 \<ge> 2.5
                   then [Strong_Equity_Multiple (dict_get metrics ''equity_multiple'' 0)] else [])
          in case category_risks score_breakdown of
               Inl e \<Rightarrow> Inl e
             | Inr cat_risks \<Rightarrow>
                (case (if dict_get metrics ''irr'' 0 < 10
                       then (case dict_index metrics ''irr'' of Inl e \<Rightarrow> Inl e | Inr v \<Rightarrow> Inr [Low_IRR v])
                       else Inr []) of
                   Inl e \<Rightarrow> Inl e
                 | Inr irr_risk \<Rightarrow>
                    (let risks1 = cat_risks @ irr_risk
                           @ (if dict_get metrics ''npv'' 0 < 0 then [Negative_NPV] else [])
                           @ (if dict_get property_data ''holding_period'' 0 > 20
                              then [Long_Hold (dict_get property_data ''holding_period'' 0)] else [])
                     in Inr \<lparr>action =
                               (if total_score \<ge> 85 then Strong_Buy
                                else if total_score \<ge> 75 then Buy
                                else if total_score \<ge> 65 then Hold
                                else if total_score \<ge> 55 then Pass
                                else Hard_Pass),
                             summary =
                               (if total_score \<ge> 85
                                then ''This deal offers exceptional risk-adjusted returns. Proceed with acquisition immediately.''
                                else if total_score \<ge> 75
                                then ''Solid investment opportunity that meets investment criteria. Proceed if available.''
                                else if total_score \<ge> 65
                                then ''Average deal with mixed qualities. Consider waiting for better opportunities.''
                                else if total_score \<ge> 55
                                then ''Below-average deal with significant concerns. Not recommended.''
                                else ''This deal has critical red flags. Do not proceed.''),
                             strengths = take 4 strengths1,
                             risks = take 4 risks1,
                             actions =
                               (if total_score \<ge> 75
                                then [''1. Verify rent comps and growth assumptions with local brokers'',
                                      ''2. Confirm property condition and CapEx budget accuracy'',
                                      ''3. Review tenant quality and lease terms in detail'']
                                else [''1. Reassess assumptions - are they too aggressive?'',
                                      ''2. Explore ways to improve returns (lower price, better financing)'',
                                      ''3. Compare against other available opportunities'']),
                             confidence =
                               (if total_score \<ge> 85 then HIGH
                                else if total_score \<ge> 70 then MODERATE
                                else LOW)\<rparr>))))"

text \<open>Any exception of the body gives the fallback recommendation.\<close>

definition generate_recommendation ::
  "real \<Rightarrow> (string \<times> category_data) list \<Rightarrow> (string \<rightharpoonup> real) \<Rightarrow> (string \<rightharpoonup> real)
   \<Rightarrow> recommendation" where
  "generate_recommendation total_score score_breakdown metrics property_data =
     (case recommendation_body total_score score_breakdown metrics property_data of
        Inl e \<Rightarrow>
          \<lparr>action = Review_Needed,
           summary = ''Unable to generate recommendation. Review metrics manually.'',
           strengths = [], risks = [], actions = [], confidence = Not_Available\<rparr>
      | Inr recommendation \<Rightarrow> recommendation)"

section \<open>Concrete deals\<close>

text \<open>
  The scenario of the specification: a multifamily building of 5 units at 1500 a month,
  bought for 1,000,000 with 20,000 of closing costs and a 70 percent loan.
\<close>

definition example_deal :: inputs where
  "example_deal =
     \<lparr>property_type = Multifamily, units_or_sf = 5, unit_rents = [1500, 1500, 1500, 1500, 1500],
      rent_per_sf = 0, purchase_price = 1000000, closing_costs = 20000, rent_growth = 3,
      vacancy = 5, opex_per_unit_or_sf = 6000, opex_growth = 3, capex_per_unit_or_sf = 300,
      management_fee = 4, loan_to_value = 70, interest_rate = 6.5, amortization = 30,
      io_period = 0, holding_period = 10, exit_cap_rate = 5.5, selling_costs = 2,
      discount_rate = 12, tax_rate = 0, building_value_pct = 80\<rparr>"

text \<open>The same building bought without a loan and held for two years.\<close>

definition all_cash_deal :: inputs where
  "all_cash_deal = example_deal\<lparr>loan_to_value := 0, holding_period := 2\<rparr>"

definition zero_cap_deal :: inputs where
  "zero_cap_deal = all_cash_deal\<lparr>exit_cap_rate := 0\<rparr>"

text \<open>
  \<^verbatim>\<open>current_loan_balance\<close> of the call the script makes, when the loop over the years
  has ended.
\<close>

definition final_loan_balance :: "inputs \<Rightarrow> py_error + real" where
  "final_loan_balance d =
     (case calculate_cash_flows_state (property_type d) (holding_period d) (unit_rents d)
             (annual_rent_total d) (rent_growth d) (vacancy d) (opex_per_unit_or_sf d)
             (opex_growth d) (units_or_sf d) (management_fee d) (capex_per_unit_or_sf d)
             (loan_amount d) (interest_rate d) (amortization d) (io_period d)
             (equity_required d) (tax_rate d) (annual_depreciation d) of
        Inl e \<Rightarrow> Inl e
      | Inr (rows, current_loan_balance) \<Rightarrow> Inr current_loan_balance)"

text \<open>
  The example building with five interest-only years and an amortization period of five
  years, held for seven: the loan has no amortizing phase.
\<close>

definition never_amortizing_deal :: inputs where
  "never_amortizing_deal = example_deal\<lparr>amortization := 5, io_period := 5, holding_period := 7\<rparr>"

text \<open>The example deal with an interest rate of 0, the minimum of the input.\<close>

definition zero_interest_deal :: inputs where
  "zero_interest_deal = example_deal\<lparr>interest_rate := 0\<rparr>"

text \<open>The example building with a loan at 12 percent amortized over one year, held for two.\<close>

definition overheld_deal :: inputs where
  "overheld_deal = example_deal\<lparr>interest_rate := 12, amortization := 1, holding_period := 2\<rparr>"

text \<open>Score breakdowns and metrics: every category at its cap, and a mixed deal.\<close>

definition full_marks :: "(string \<times> category_data) list" where
  "full_marks =
     [(''Returns (IRR/EM)'', \<lparr>score = 30, max' = 30\<rparr>),
      (''Value Creation (NPV)'', \<lparr>score = 20, max' = 20\<rparr>),
      (''Cash Flow Strength'', \<lparr>score = 20, max' = 20\<rparr>),
      (''Market Positioning'', \<lparr>score = 15, max' = 15\<rparr>),
      (''Risk Profile'', \<lparr>score = 15, max' = 15\<rparr>)]"

definition strong_metrics :: "string \<rightharpoonup> real" where
  "strong_metrics = [''irr'' \<mapsto> 22, ''npv'' \<mapsto> 90000, ''equity_multiple'' \<mapsto> 3.6]"

definition mixed_marks :: "(string \<times> category_data) list" where
  "mixed_marks =
     [(''Returns (IRR/EM)'', \<lparr>score = 24, max' = 30\<rparr>),
      (''Value Creation (NPV)'', \<lparr>score = 5, max' = 20\<rparr>),
      (''Cash Flow Strength'', \<lparr>score = 10, max' = 20\<rparr>),
      (''Market Positioning'', \<lparr>score = 15, max' = 15\<rparr>),
      (''Risk Profile'', \<lparr>score = 6, max' = 15\<rparr>)]"

definition mixed_metrics :: "string \<rightharpoonup> real" where
  "mixed_metrics = [''irr'' \<mapsto> 16, ''npv'' \<mapsto> 12000, ''equity_multiple'' \<mapsto> 2.1]"

definition ten_year_hold :: "string \<rightharpoonup> real" where
  "ten_year_hold = [''holding_period'' \<mapsto> 10]"

text \<open>
  Instances for the library parameters: a solver that finds no rate and returns nan, and
  the discounted sum of the specification.
\<close>

definition failing_irr :: "real list \<Rightarrow> py_error + real" where
  "failing_irr flows = Inl Non_Finite"

text \<open>
  Modelled from the spec: \<^verbatim>\<open>npf.npv\<close> is a library function that is not part of the
  sources; the specification gives NPV as the sum of \<open>CF_t / (1 + discount_rate)^t\<close>.
\<close>

definition discounted_sum :: "real \<Rightarrow> real list \<Rightarrow> py_error + real" where
  "discounted_sum rate values =
     (if 1 + rate = 0 \<and> length values > 1 then Inl Non_Finite
      else Inr (sum_list (map (\<lambda>(t, v). v / (1 + rate) ^ t) (enumerate 0 values))))"

text \<open>The all-cash deal with selling costs of 6 percent, and with operating expenses growing
  at 2 percent while rents grow at 3.\<close>

definition six_percent_deal :: inputs where
  "six_percent_deal = all_cash_deal\<lparr>selling_costs := 6\<rparr>"

definition slow_opex_deal :: inputs where
  "slow_opex_deal = six_percent_deal\<lparr>opex_growth := 2\<rparr>"

section \<open>Evaluating the script on concrete deals\<close>

lemmas script_defs =
  cf_df_def calculate_cash_flows_def calculate_cash_flows_state_def cash_flow_year_def
  calculate_debt_service_def interest_and_principal_def py_div_def annual_rent_total_def
  loan_amount_def equity_required_def total_acquisition_def annual_depreciation_def
  final_noi_def terminal_noi_def sale_price_def sale_costs_def remaining_balance_def
  calc_remaining_balance_def net_sale_proceeds_def yearly_series_def upto.simps Let_def

lemmas sens_defs = one_way_result_def two_way_cell_def sensitivity_result_def np_div_def
  capex_annual_def main_metric_def
  year_1_noi_def year_1_egi_def year_1_gri_def year_1_opex_def year_1_mgmt_def add_to_last_def
  equity_multiple_def equity_multiple_expr_def

lemma final_noi_all_cash_deal: "final_noi all_cash_deal = Inr 53642.4"
  by (simp add: all_cash_deal_def example_deal_def script_defs)

lemma final_noi_zero_cap_deal: "final_noi zero_cap_deal = Inr 53642.4"
  by (simp add: zero_cap_deal_def all_cash_deal_def example_deal_def script_defs)

section \<open>Terminal sale price\<close>

text \<open>
  C1, the claim as stated: a deal with \<open>exit_cap_rate \<le> 0\<close> makes the sale price fail.
  The script guards the division: at \<open>exit_cap_rate = 0\<close> the sale price is the number 0.
\<close>

theorem C1_zero_cap_sale_price_is_zero:
  "exit_cap_rate zero_cap_deal = 0 \<and> sale_price zero_cap_deal = Inr 0"
  by (simp add: sale_price_def terminal_noi_def final_noi_zero_cap_deal)
    (simp add: zero_cap_deal_def)

text \<open>
  C1, amended: when the projection has a final-year NOI \<open>n\<close>, the sale price is 0 for
  \<open>exit_cap_rate \<le> 0\<close> and \<open>(n * (1 + rent_growth / 100)) / (exit_cap_rate / 100)\<close> for
  \<open>exit_cap_rate > 0\<close>; in neither case is it an error.
\<close>

theorem C1_sale_price:
  assumes "final_noi d = Inr n"
  shows "(exit_cap_rate d \<le> 0 \<longrightarrow> sale_price d = Inr 0)
       \<and> (0 < exit_cap_rate d \<longrightarrow>
            sale_price d = Inr ((n * (1 + rent_growth d / 100)) / (exit_cap_rate d / 100)))"
  using assms by (simp add: sale_price_def terminal_noi_def py_div_def)

theorem C1_sale_price_witness:
  "final_noi zero_cap_deal = Inr 53642.4 \<and> exit_cap_rate zero_cap_deal \<le> 0
   \<and> sale_price zero_cap_deal = Inr 0
   \<and> final_noi all_cash_deal = Inr 53642.4 \<and> 0 < exit_cap_rate all_cash_deal
   \<and> sale_price all_cash_deal = Inr ((53642.4 * (1 + 3 / 100)) / (5.5 / 100))"
  using C1_sale_price [OF final_noi_zero_cap_deal] C1_sale_price [OF final_noi_all_cash_deal]
    final_noi_zero_cap_deal final_noi_all_cash_deal
  by (simp add: zero_cap_deal_def all_cash_deal_def example_deal_def)

section \<open>The example scenario\<close>

text \<open>
  C3, the claim as stated: equity required is 306,000, that is 0.3 times the total
  acquisition cost. The loan is a share of the purchase price alone, so the equity is not
  306,000.
\<close>

theorem C3_equity_is_not_306000:
  "equity_required example_deal \<noteq> 306000"
  by (simp add: example_deal_def equity_required_def total_acquisition_def loan_amount_def)

text \<open>
  C3, amended: year-1 gross income 90,000, EGI 85,500, operating expenses 30,000,
  management fee 3,420, NOI 52,080, and equity required 320,000: the total acquisition
  cost 1,020,000 less the loan of 0.7 times the purchase price 1,000,000.
\<close>

theorem C3_example_scenario:
  "year_1_gri example_deal = 90000 \<and> year_1_egi example_deal = 85500
   \<and> year_1_opex example_deal = 30000 \<and> year_1_mgmt example_deal = 3420
   \<and> year_1_noi example_deal = 52080
   \<and> total_acquisition example_deal = 1020000 \<and> loan_amount example_deal = 700000
   \<and> equity_required example_deal = 320000"
  by (simp add: example_deal_def year_1_gri_def year_1_egi_def year_1_opex_def year_1_mgmt_def
      year_1_noi_def equity_required_def total_acquisition_def loan_amount_def
      annual_rent_total_def)

section \<open>Equity multiple\<close>

text \<open>
  C4, the claim as stated: with \<open>equity_required = 0\<close> the equity multiple fails. The
  expression is guarded by \<open>equity_required > 0\<close> and gives 0 otherwise: for a yearly
  series of 50580 and 52142.4 and net sale proceeds of 980000 on no equity it is 0.
\<close>

theorem C4_zero_equity_multiple_is_zero:
  "equity_multiple_expr [50580, 52142.4] 980000 0 = Inr 0"
  by (simp add: equity_multiple_expr_def)

text \<open>
  C4, amended: with \<open>equity_required > 0\<close> the equity multiple is the sum of the yearly cash
  flows plus the net sale proceeds, divided by the equity; with \<open>equity_required \<le> 0\<close> it
  is 0. It is never an error.
\<close>

theorem C4_equity_multiple:
  "(0 < equity \<longrightarrow> equity_multiple_expr series nsp equity = Inr ((sum_list series + nsp) / equity))
   \<and> (equity \<le> 0 \<longrightarrow> equity_multiple_expr series nsp equity = Inr 0)"
  by (simp add: equity_multiple_expr_def py_div_def)

theorem C4_equity_multiple_witness:
  "(0::real) < 1020000
   \<and> equity_multiple_expr [50580, 52142.4] 980000 1020000 = Inr ((sum_list [50580, 52142.4] + 980000) / 1020000)
   \<and> (0::real) \<le> 0 \<and> equity_multiple_expr [50580, 52142.4] 980000 0 = Inr 0"
  using C4_equity_multiple [of 1020000 "[50580, 52142.4]" 980000]
    C4_equity_multiple [of 0 "[50580, 52142.4]" 980000]
  by simp

section \<open>The degenerate loan: no amortizing phase\<close>

text \<open>
  C2. With \<open>io_period \<ge> amortization\<close> and a positive principal, the claim wants the
  remaining balance to be the principal at every holding period. For the example loan of
  700000 with \<open>amortization = 5\<close>, \<open>io_period = 5\<close> and \<open>holding_period = 7\<close> the closed
  form returns 0, while the balance the projection keeps year by year stays at 700000 and
  the debt service of year 6 is 0, as the claim says.
\<close>

theorem C2_degenerate_balance_is_zero:
  "loan_amount never_amortizing_deal = 700000
   \<and> remaining_balance never_amortizing_deal = Inr 0
   \<and> final_loan_balance never_amortizing_deal = Inr 700000
   \<and> calculate_debt_service 6 (loan_amount never_amortizing_deal)
         (interest_rate never_amortizing_deal) (amortization never_amortizing_deal)
         (io_period never_amortizing_deal) = Inr 0"
  by (simp add: never_amortizing_deal_def example_deal_def final_loan_balance_def script_defs)

section \<open>Zero interest\<close>

text \<open>
  C10. At \<open>interest_rate = 0\<close> the annuity denominator \<open>(1 + monthly_rate)^n - 1\<close> is 0:
  for the example loan of 700000 amortized over 30 years the debt service of year 1 and the
  closed-form balance after 10 years both raise \<^verbatim>\<open>ZeroDivisionError\<close>, and so does the
  projection of the deal.
\<close>

theorem C10_zero_interest_divides_by_zero:
  "calculate_debt_service 1 700000 0 30 0 = Inl ZeroDivisionError
   \<and> calc_remaining_balance 700000 0 30 0 10 = Inl ZeroDivisionError
   \<and> cf_df zero_interest_deal = Inl ZeroDivisionError
   \<and> remaining_balance zero_interest_deal = Inl ZeroDivisionError"
  by (simp add: zero_interest_deal_def example_deal_def script_defs)

section \<open>The running loan balance\<close>

text \<open>
  Twelve monthly steps at a fixed payment \<open>P\<close> and monthly rate \<open>r\<close> take a balance \<open>b\<close> to
  \<open>b (1 + r)^k - P ((1 + r)^k - 1) / r\<close>; the loop over the years keeps the balance during the
  interest-only years and applies twelve steps in every later year.
\<close>

lemma amortize_months_balance:
  "r \<noteq> 0 \<Longrightarrow> snd (snd (amortize_months k P r (i, p, b))) = b * (1 + r) ^ k - P * ((1 + r) ^ k - 1) / r"
proof (induction k arbitrary: i p b)
  case 0
  then show ?case by simp
next
  case (Suc k)
  have "snd (snd (amortize_months (Suc k) P r (i, p, b)))
        = (b - (P - b * r)) * (1 + r) ^ k - P * ((1 + r) ^ k - 1) / r"
    using Suc.IH[OF Suc.prems] by (simp add: Let_def)
  also have "\<dots> = b * (1 + r) ^ Suc k - P * ((1 + r) ^ Suc k - 1) / r"
    using Suc.prems by (simp add: field_simps)
  finally show ?case .
qed

lemma annuity_denominator_pos:
  assumes "0 < (r::real)" "0 < (n::int)"
  shows "1 < (1 + r) powi n"
proof -
  have "0 < nat n" using assms by simp
  then have "1 < (1 + r) ^ nat n" using assms by (intro one_less_power) simp_all
  then show ?thesis using assms by (simp add: power_int_nonneg_exp)
qed

lemma run_years_fold:
  assumes "\<And>y b. y \<in> set ys \<Longrightarrow> \<exists>row. body y b = Inr (row, g y b)"
  shows "\<exists>rows. run_years body ys b = Inr (rows, fold g ys b) \<and> length rows = length ys"
  using assms
proof (induction ys arbitrary: b)
  case Nil
  then show ?case by simp
next
  case (Cons y ys)
  from Cons.prems[of y b] obtain row where r: "body y b = Inr (row, g y b)" by auto
  from Cons.IH[of "g y b"] Cons.prems obtain rows where
    "run_years body ys (g y b) = Inr (rows, fold g ys (g y b))" "length rows = length ys"
    by auto
  with r show ?case by simp
qed

lemma cash_flow_year_balance:
  fixes L rate :: real and am io y :: int
  assumes "L \<noteq> 0" "0 < rate" "io < am"
  defines "r \<equiv> rate / 100 / 12"
  defines "P \<equiv> L * (r * (1 + r) powi ((am - io) * 12)) / ((1 + r) powi ((am - io) * 12) - 1)"
  shows "\<exists>row. cash_flow_year pt ur art rg vac opx og units mf cpx L rate am io eq tax dep r y b
           = Inr (row, if y \<le> io then b else b * (1 + r) ^ 12 - P * ((1 + r) ^ 12 - 1) / r)"
proof -
  have r: "0 < r" using assms by (simp add: r_def)
  have n: "0 < (am - io) * 12" using assms by simp
  have den: "(1 + r) powi ((am - io) * 12) - 1 \<noteq> 0"
    using annuity_denominator_pos[OF r n] by simp
  define ds where "ds = (if y \<le> io \<or> L = 0 then L * (rate / 100) else P * 12)"
  have ds: "calculate_debt_service y L rate am io = Inr ds"
    using den n by (simp add: calculate_debt_service_def py_div_def Let_def r_def P_def ds_def)
  show ?thesis
  proof (cases "y \<le> io")
    case True
    then have "interest_and_principal y L rate r am io b = Inr (b * (rate / 100), 0, b)"
      using assms by (simp add: interest_and_principal_def)
    with ds True show ?thesis by (simp add: cash_flow_year_def Let_def)
  next
    case False
    obtain ie pp nb where t: "amortize_months 12 P r (0, 0, b) = (ie, pp, nb)"
      by (cases "amortize_months 12 P r (0, 0, b)") auto
    have "nb = snd (snd (amortize_months 12 P r (0, 0, b)))" using t by simp
    also have "\<dots> = b * (1 + r) ^ 12 - P * ((1 + r) ^ 12 - 1) / r"
      using r by (subst amortize_months_balance) simp_all
    finally have nb: "nb = b * (1 + r) ^ 12 - P * ((1 + r) ^ 12 - 1) / r" .
    have "interest_and_principal y L rate r am io b = Inr (ie, pp, nb)"
      using False assms(1,3) den t
      by (simp add: interest_and_principal_def py_div_def Let_def P_def)
    with ds False nb show ?thesis by (simp add: cash_flow_year_def Let_def)
  qed
qed

lemma fold_balance_closed:
  fixes L P r :: real and io :: int
  assumes "r \<noteq> 0" "0 \<le> io"
  defines "g \<equiv> (\<lambda>(y::int) b. if y \<le> io then b else b * (1 + r) ^ 12 - P * ((1 + r) ^ 12 - 1) / r)"
  shows "fold g [1..int k] L =
           (if int k \<le> io then L
            else L * (1 + r) ^ (12 * (k - nat io)) - P * ((1 + r) ^ (12 * (k - nat io)) - 1) / r)"
proof (induction k)
  case 0
  then show ?case using assms by simp
next
  case (Suc k)
  have up: "[1..1 + int k] = [1..int k] @ [1 + int k]"
    using upto_rec2[of 1 "1 + int k"] by simp
  show ?case
  proof (cases "int (Suc k) \<le> io")
    case True
    then show ?thesis using Suc by (simp add: up g_def)
  next
    case False
    show ?thesis
    proof (cases "int k \<le> io")
      case True
      with False have "int k = io" by simp
      then have "Suc k - nat io = 1" by simp
      with True False Suc show ?thesis by (simp add: up g_def)
    next
      case F2: False
      then have e: "Suc k - nat io = Suc (k - nat io)" using assms by simp
      define A where "A = (1 + r) ^ (12 * (k - nat io))"
      have "fold g [1..int (Suc k)] L = g (1 + int k) (fold g [1..int k] L)"
        by (simp add: up)
      also have "\<dots> = (L * A - P * (A - 1) / r) * (1 + r) ^ 12 - P * ((1 + r) ^ 12 - 1) / r"
        using F2 False Suc by (simp add: g_def A_def)
      also have "\<dots> = L * (A * (1 + r) ^ 12) - P * (A * (1 + r) ^ 12 - 1) / r"
        using assms(1) by (simp add: field_simps)
      also have "A * (1 + r) ^ 12 = (1 + r) ^ (12 * (Suc k - nat io))"
        by (simp add: A_def e power_add)
      finally show ?thesis using False by simp
    qed
  qed
qed

lemma annuity_balance_algebra:
  fixes L r A B :: real
  assumes "r \<noteq> 0" "0 < B" "A * B \<noteq> 1"
  shows "L * A - (L * (r * (A * B)) / (A * B - 1)) * (A - 1) / r
         = (L * (r * (A * B)) / (A * B - 1)) * (B - 1) / (r * B)"
proof -
  have d: "A * B - 1 \<noteq> 0" using assms by simp
  have "L * A - (L * (r * (A * B)) / (A * B - 1)) * (A - 1) / r = L * A * (B - 1) / (A * B - 1)"
    using assms(1) d by (simp add: field_simps)
  moreover have "(L * (r * (A * B)) / (A * B - 1)) * (B - 1) / (r * B) = L * A * (B - 1) / (A * B - 1)"
    using assms(1,2) d by (simp add: field_simps)
  ultimately show ?thesis by simp
qed

lemma iterated_balance:
  fixes L rate :: real and am io h :: int
  assumes "0 < L" "0 < rate" "0 \<le> io" "io < am" "0 \<le> h"
  defines "r \<equiv> rate / 100 / 12"
  defines "P \<equiv> L * (r * (1 + r) powi ((am - io) * 12)) / ((1 + r) powi ((am - io) * 12) - 1)"
  shows "\<exists>rows.
           calculate_cash_flows_state pt h ur art rg vac opx og units mf cpx L rate am io eq tax dep
             = Inr (rows, if h \<le> io then L
                          else L * (1 + r) ^ (12 * (nat h - nat io))
                               - P * ((1 + r) ^ (12 * (nat h - nat io)) - 1) / r)"
proof -
  define g where "g = (\<lambda>(y::int) b. if y \<le> io then b else b * (1 + r) ^ 12 - P * ((1 + r) ^ 12 - 1) / r)"
  have r: "0 < r" using assms by (simp add: r_def)
  have L: "L \<noteq> 0" using assms by simp
  have body: "\<exists>row. cash_flow_year pt ur art rg vac opx og units mf cpx L rate am io eq tax dep r y b
                 = Inr (row, g y b)" for y b
    using cash_flow_year_balance[OF L assms(2,4)] unfolding g_def r_def P_def by blast
  obtain rows where rows:
    "run_years (cash_flow_year pt ur art rg vac opx og units mf cpx L rate am io eq tax dep r) [1..h] L
       = Inr (rows, fold g [1..h] L)"
    using run_years_fold[of "[1..h]" _ g L] body by blast
  have h: "h = int (nat h)" using assms by simp
  have "fold g [1..int (nat h)] L =
          (if h \<le> io then L
           else L * (1 + r) ^ (12 * (nat h - nat io)) - P * ((1 + r) ^ (12 * (nat h - nat io)) - 1) / r)"
    using fold_balance_closed[where r=r and io=io and k="nat h" and P=P and L=L] r assms
    by (simp add: g_def)
  with h have bal: "fold g [1..h] L =
          (if h \<le> io then L
           else L * (1 + r) ^ (12 * (nat h - nat io)) - P * ((1 + r) ^ (12 * (nat h - nat io)) - 1) / r)"
    by simp
  show ?thesis
    using rows bal assms(2) by (simp add: calculate_cash_flows_state_def Let_def r_def)
qed

text \<open>
  C7. The claim wants the running balance non-negative for every input, holding periods
  longer than the amortization period included. For a loan of 700000 at 12 percent
  amortized over one year, the balance is 0 after year 1 and \<open>- 700000 * 1.01^12\<close> after
  year 2: the loop goes on subtracting principal after the loan is paid off.
\<close>

theorem C7_balance_negative_past_amortization:
  "final_loan_balance (overheld_deal\<lparr>holding_period := 1\<rparr>) = Inr 0
   \<and> final_loan_balance overheld_deal = Inr (- (700000 * (101 / 100) ^ 12))
   \<and> - (700000 * (101 / 100) ^ 12) < (0::real)"
proof -
  define x :: real where "x = (101 / 100) ^ 12"
  have x1: "1 < x" unfolding x_def by (intro one_less_power) simp_all
  have x2: "(101 / 100 :: real) ^ 24 = x ^ 2" unfolding x_def by (simp flip: power_mult)
  have v2: "700000 * x ^ 2 - 700000 * (x * (x ^ 2 - 1)) / (x - 1) = - (700000 * x)"
    using x1 by (simp add: field_simps power2_eq_square)
  have "\<exists>rows. calculate_cash_flows_state (property_type overheld_deal) 1
             (unit_rents overheld_deal) (annual_rent_total overheld_deal)
             (rent_growth overheld_deal) (vacancy overheld_deal)
             (opex_per_unit_or_sf overheld_deal) (opex_growth overheld_deal)
             (units_or_sf overheld_deal) (management_fee overheld_deal)
             (capex_per_unit_or_sf overheld_deal) 700000 12 1 0
             (equity_required overheld_deal) (tax_rate overheld_deal)
             (annual_depreciation overheld_deal)
          = Inr (rows, 0)"
    using iterated_balance[where L=700000 and rate=12 and io=0 and am=1 and h=1,
        of "property_type overheld_deal" "unit_rents overheld_deal"] x1
    by (simp flip: x_def)
  then have one: "final_loan_balance (overheld_deal\<lparr>holding_period := 1\<rparr>) = Inr 0"
    by (auto simp: final_loan_balance_def overheld_deal_def example_deal_def loan_amount_def
        annual_rent_total_def equity_required_def total_acquisition_def annual_depreciation_def)
  have "\<exists>rows. calculate_cash_flows_state (property_type overheld_deal) 2
             (unit_rents overheld_deal) (annual_rent_total overheld_deal)
             (rent_growth overheld_deal) (vacancy overheld_deal)
             (opex_per_unit_or_sf overheld_deal) (opex_growth overheld_deal)
             (units_or_sf overheld_deal) (management_fee overheld_deal)
             (capex_per_unit_or_sf overheld_deal) 700000 12 1 0
             (equity_required overheld_deal) (tax_rate overheld_deal)
             (annual_depreciation overheld_deal)
          = Inr (rows, - (700000 * x))"
    using iterated_balance[where L=700000 and rate=12 and io=0 and am=1 and h=2,
        of "property_type overheld_deal" "unit_rents overheld_deal"]
    by (simp add: x2 v2 flip: x_def)
  then have two: "final_loan_balance overheld_deal = Inr (- (700000 * x))"
    by (auto simp: final_loan_balance_def overheld_deal_def example_deal_def loan_amount_def)
  have "- (700000 * x) < 0" using x1 by simp
  with one two show ?thesis by (simp add: x_def)
qed

text \<open>
  The closed form and the iteration in exact arithmetic. For a positive principal and
  interest rate, a non-negative interest-only period shorter than the amortization period,
  and a holding period after the interest-only years and within the amortization period,
  the real number the closed-form remaining balance denotes is the real number the
  month-by-month iteration of the projection denotes. This is an identity of the two
  formulas; what the floats compute, with their rounding and their overflow, is not its
  subject.
\<close>

lemma closed_form_balance_over_reals:
  fixes L rate :: real and am io h :: int
  assumes "0 < L" "0 < rate" "0 \<le> io" "io < am" "io < h" "h \<le> am"
  shows "\<exists>rows b.
           calculate_cash_flows_state pt h ur art rg vac opx og units mf cpx L rate am io eq tax dep
             = Inr (rows, b)
           \<and> calc_remaining_balance L rate am io h = Inr b"
proof -
  define r where "r = rate / 100 / 12"
  define P where "P = L * (r * (1 + r) powi ((am - io) * 12)) / ((1 + r) powi ((am - io) * 12) - 1)"
  define m where "m = 12 * (nat h - nat io)"
  define m' where "m' = nat ((am - h) * 12)"
  define A where "A = (1 + r) ^ m"
  define B where "B = (1 + r) ^ m'"
  have r: "0 < r" using assms by (simp add: r_def)
  have L: "L \<noteq> 0" using assms by simp
  have h0: "0 \<le> h" using assms by simp
  obtain rows where st:
    "calculate_cash_flows_state pt h ur art rg vac opx og units mf cpx L rate am io eq tax dep
       = Inr (rows, L * A - P * (A - 1) / r)"
    using iterated_balance[OF assms(1-4) h0, of pt ur art rg vac opx og units mf cpx eq tax dep]
      assms(5)
    unfolding r_def P_def A_def m_def by auto
  have tot: "nat ((am - io) * 12) = m + m'"
    using assms by (simp add: m_def m'_def nat_diff_distrib nat_mult_distrib algebra_simps)
  have pw: "(1 + r) powi ((am - io) * 12) = A * B"
    using assms tot by (simp add: power_int_nonneg_exp A_def B_def power_add)
  have AB: "1 < A * B"
    using annuity_denominator_pos[OF r, of "(am - io) * 12"] assms pw by simp
  have Bpos: "0 < B" using r by (simp add: B_def)
  have Pdef: "P = L * (r * (A * B)) / (A * B - 1)" unfolding P_def pw by (rule refl)
  have eq: "L * A - P * (A - 1) / r = P * (B - 1) / (r * B)"
    unfolding Pdef using annuity_balance_algebra[of r B A L] r Bpos AB by simp
  have "calc_remaining_balance L rate am io h = Inr (L * A - P * (A - 1) / r)"
  proof (cases "h = am")
    case True
    then have "m' = 0" by (simp add: m'_def)
    then have "B = 1" by (simp add: B_def)
    with eq have "L * A - P * (A - 1) / r = 0" by simp
    with True assms L show ?thesis by (simp add: calc_remaining_balance_def)
  next
    case False
    then have lt: "0 < (am - h) * 12" using assms by simp
    have pw': "(1 + r) powi ((am - h) * 12) = B"
      using lt by (simp add: power_int_nonneg_exp B_def m'_def)
    have "calc_remaining_balance L rate am io h =
            (if h \<le> io \<or> L = 0 then Inr L
             else if (am - h) * 12 \<le> 0 then Inr 0
             else case py_div (L * (r * (A * B))) (A * B - 1) of
                    Inl e \<Rightarrow> Inl e
                  | Inr monthly_pmt \<Rightarrow> py_div (monthly_pmt * (B - 1)) (r * B))"
      unfolding calc_remaining_balance_def Let_def r_def[symmetric] pw pw' by (rule refl)
    then have "calc_remaining_balance L rate am io h = Inr (P * (B - 1) / (r * B))"
      using lt assms(5) L r Bpos AB by (simp add: py_div_def Pdef)
    with eq show ?thesis by simp
  qed
  with st show ?thesis by blast
qed

section \<open>Strengths and risks of the recommendation\<close>

lemma category_strengths_filter:
  assumes "\<forall>(c, d) \<in> set sb. max' d \<noteq> 0"
  shows "category_strengths sb =
           Inr (map (\<lambda>(c, d). Category_Strength c (score d) (max' d) (score d / max' d * 100))
                  (filter (\<lambda>(c, d). 80 \<le> score d / max' d * 100) sb))"
  using assms by (induction sb) (auto simp: py_div_def Let_def)

lemma category_risks_filter:
  assumes "\<forall>(c, d) \<in> set sb. max' d \<noteq> 0"
  shows "category_risks sb =
           Inr (map (\<lambda>(c, d). Category_Risk c (score d) (max' d) (score d / max' d * 100))
                  (filter (\<lambda>(c, d). score d / max' d * 100 < 50) sb))"
  using assms by (induction sb) (auto simp: py_div_def Let_def)

lemma in_take_append:
  "x \<in> set (take n xs) \<Longrightarrow> x \<in> set (take n (xs @ ys))"
  by (auto simp: take_append dest: in_set_takeD)

lemma in_take_after_short:
  "length xs < n \<Longrightarrow> y \<in> set (take n (xs @ y # ys))"
  by (simp add: take_append take_Cons')

text \<open>
  C9, the claim as stated: an IRR of at least 15 is always listed as a strength, and every
  category at or above 80 percent of its cap is flagged. With all five categories at their
  cap and an IRR of 22, the returned strengths are the first four categories: the list is
  cut to four entries, the IRR entry and the fifth category are not in it.
\<close>

theorem C9_irr_strength_cut_off:
  "dict_get strong_metrics ''irr'' 0 \<ge> 15
   \<and> Superior_IRR 22 \<notin> set (strengths (generate_recommendation 100 full_marks strong_metrics ten_year_hold))
   \<and> Category_Strength ''Risk Profile'' 15 15 100
        \<notin> set (strengths (generate_recommendation 100 full_marks strong_metrics ten_year_hold))"
  by (simp add: generate_recommendation_def recommendation_body_def full_marks_def strong_metrics_def
      dict_get_def dict_index_def py_div_def)

text \<open>
  C9, amended: when no category has a cap of 0 and the metrics hold an IRR, the returned
  strengths and risks have at most four entries each; the first four categories (in the
  order of the breakdown) at or above 80 percent of their cap are flagged as strengths, the
  first four below 50 percent as risks; and the IRR strength is listed whenever the IRR is
  at least 15 and fewer than four categories are flagged as strengths.
\<close>

theorem C9_strengths_and_risks:
  assumes "\<forall>(c, d) \<in> set sb. max' d \<noteq> 0" and "metrics ''irr'' = Some rate"
  shows "length (strengths (generate_recommendation ts sb metrics pd)) \<le> 4
       \<and> length (risks (generate_recommendation ts sb metrics pd)) \<le> 4
       \<and> (\<forall>(c, d) \<in> set (take 4 (filter (\<lambda>(c, d). 80 \<le> score d / max' d * 100) sb)).
             Category_Strength c (score d) (max' d) (score d / max' d * 100)
               \<in> set (strengths (generate_recommendation ts sb metrics pd)))
       \<and> (\<forall>(c, d) \<in> set (take 4 (filter (\<lambda>(c, d). score d / max' d * 100 < 50) sb)).
             Category_Risk c (score d) (max' d) (score d / max' d * 100)
               \<in> set (risks (generate_recommendation ts sb metrics pd)))
       \<and> (15 \<le> rate \<and> length (filter (\<lambda>(c, d). 80 \<le> score d / max' d * 100) sb) < 4
             \<longrightarrow> Superior_IRR rate \<in> set (strengths (generate_recommendation ts sb metrics pd)))"
proof -
  let ?mkS = "\<lambda>(c, d). Category_Strength c (score d) (max' d) (score d / max' d * 100)"
  let ?mkR = "\<lambda>(c, d). Category_Risk c (score d) (max' d) (score d / max' d * 100)"
  let ?S = "filter (\<lambda>(c, d). 80 \<le> score d / max' d * 100) sb"
  let ?R = "filter (\<lambda>(c, d). score d / max' d * 100 < 50) sb"
  let ?fs = "(if dict_get metrics ''npv'' 0 > 0 then [Positive_NPV (dict_get metrics ''npv'' 0)] else [])
             @ (if dict_get metrics ''equity_multiple'' 0 \<ge> 2.5
                then [Strong_Equity_Multiple (dict_get metrics ''equity_multiple'' 0)] else [])"
  let ?gs = "(if rate < 10 then [Low_IRR rate] else [])
             @ (if dict_get metrics ''npv'' 0 < 0 then [Negative_NPV] else [])
             @ (if dict_get pd ''holding_period'' 0 > 20
                then [Long_Hold (dict_get pd ''holding_period'' 0)] else [])"
  have cs: "category_strengths sb = Inr (map ?mkS ?S)"
    by (rule category_strengths_filter[OF assms(1)])
  have cr: "category_risks sb = Inr (map ?mkR ?R)"
    by (rule category_risks_filter[OF assms(1)])
  have ir: "dict_get metrics ''irr'' 0 = rate" "dict_index metrics ''irr'' = Inr rate"
    using assms(2) by (simp_all add: dict_get_def dict_index_def)
  have st: "strengths (generate_recommendation ts sb metrics pd)
      = take 4 (map ?mkS ?S @ (if 15 \<le> rate then [Superior_IRR rate] else []) @ ?fs)"
    unfolding generate_recommendation_def recommendation_body_def cs cr ir
    by (cases "rate < 10") (simp_all add: Let_def)
  have rk: "risks (generate_recommendation ts sb metrics pd) = take 4 (map ?mkR ?R @ ?gs)"
    unfolding generate_recommendation_def recommendation_body_def cs cr ir
    by (cases "rate < 10") (simp_all add: Let_def)
  have a: "length (strengths (generate_recommendation ts sb metrics pd)) \<le> 4"
    and b: "length (risks (generate_recommendation ts sb metrics pd)) \<le> 4"
    by (simp_all add: st rk)
  have c: "\<forall>(c, d) \<in> set (take 4 ?S). ?mkS (c, d) \<in> set (strengths (generate_recommendation ts sb metrics pd))"
  proof (clarify)
    fix c d assume "(c, d) \<in> set (take 4 ?S)"
    then have "?mkS (c, d) \<in> set (take 4 (map ?mkS ?S))"
      unfolding take_map set_map by (rule imageI)
    then have "?mkS (c, d) \<in> set (take 4 (map ?mkS ?S @ (if 15 \<le> rate then [Superior_IRR rate] else []) @ ?fs))"
      by (rule in_take_append)
    then show "Category_Strength c (score d) (max' d) (score d / max' d * 100)
                 \<in> set (strengths (generate_recommendation ts sb metrics pd))"
      unfolding st by simp
  qed
  have d: "\<forall>(c, d) \<in> set (take 4 ?R). ?mkR (c, d) \<in> set (risks (generate_recommendation ts sb metrics pd))"
  proof (clarify)
    fix c d assume "(c, d) \<in> set (take 4 ?R)"
    then have "?mkR (c, d) \<in> set (take 4 (map ?mkR ?R))"
      unfolding take_map set_map by (rule imageI)
    then have "?mkR (c, d) \<in> set (take 4 (map ?mkR ?R @ ?gs))"
      by (rule in_take_append)
    then show "Category_Risk c (score d) (max' d) (score d / max' d * 100)
                 \<in> set (risks (generate_recommendation ts sb metrics pd))"
      unfolding rk by simp
  qed
  have e: "15 \<le> rate \<and> length ?S < 4
             \<longrightarrow> Superior_IRR rate \<in> set (strengths (generate_recommendation ts sb metrics pd))"
    using in_take_after_short[of "map ?mkS ?S" 4 "Superior_IRR rate" ?fs] unfolding st by auto
  from a b c d e show ?thesis by simp
qed


theorem C9_strengths_and_risks_witness:
  "0 \<notin> set (map (\<lambda>(c, d). max' d) mixed_marks) \<and> mixed_metrics ''irr'' = Some 16
   \<and> Category_Strength ''Returns (IRR/EM)'' 24 30 80
        \<in> set (strengths (generate_recommendation 70 mixed_marks mixed_metrics ten_year_hold))
   \<and> Category_Risk ''Value Creation (NPV)'' 5 20 25
        \<in> set (risks (generate_recommendation 70 mixed_marks mixed_metrics ten_year_hold))
   \<and> Superior_IRR 16 \<in> set (strengths (generate_recommendation 70 mixed_marks mixed_metrics ten_year_hold))"
  using C9_strengths_and_risks [of mixed_marks mixed_metrics 16 70 ten_year_hold]
  by (simp add: mixed_marks_def mixed_metrics_def)


section \<open>One-way sensitivity\<close>

text \<open>
  C5. The claim wants each reported value of the one-way analysis over the vacancy rate (and
  the growth rate of operating expenses) to be the metric of the pipeline run with that
  value. The loop assigns the test value to \<^verbatim>\<open>test_vac\<close> (or \<^verbatim>\<open>test_opex_gr\<close>) and never
  reads it: the reported value is the same for every test value. For the all-cash deal the
  test values run from 1 to 9 percent; the pipeline gives different equity multiples at 1 and
  at 9 percent vacancy, the analysis reports one and the same number.
\<close>

theorem C5_one_way_ignores_vacancy:
  "one_way_result npf_irr npf_npv d Vacancy_Rate m v = one_way_result npf_irr npf_npv d Vacancy_Rate m w
   \<and> one_way_result npf_irr npf_npv d OpEx_Growth_Rate m v
       = one_way_result npf_irr npf_npv d OpEx_Growth_Rate m w
   \<and> main_metric npf_irr npf_npv (all_cash_deal\<lparr>vacancy := 1\<rparr>) Equity_Multiple
       = Inr (166081703 / 146093750)
   \<and> main_metric npf_irr npf_npv (all_cash_deal\<lparr>vacancy := 9\<rparr>) Equity_Multiple
       = Inr (145357727 / 146093750)
   \<and> one_way_result npf_irr npf_npv all_cash_deal Vacancy_Rate Equity_Multiple 1
       = Inr (59985733 / 58437500)
   \<and> one_way_result npf_irr npf_npv all_cash_deal Vacancy_Rate Equity_Multiple 9
       = Inr (59985733 / 58437500)"
proof -
  have a: "one_way_result npf_irr npf_npv d Vacancy_Rate m v = one_way_result npf_irr npf_npv d Vacancy_Rate m w"
    and b: "one_way_result npf_irr npf_npv d OpEx_Growth_Rate m v
            = one_way_result npf_irr npf_npv d OpEx_Growth_Rate m w"
    by (simp_all add: one_way_result_def Let_def split: sum.split)
  have c: "main_metric npf_irr npf_npv (all_cash_deal\<lparr>vacancy := 1\<rparr>) Equity_Multiple
       = Inr (166081703 / 146093750)"
    by (simp add: all_cash_deal_def example_deal_def script_defs sens_defs power2_eq_square)
  have d: "main_metric npf_irr npf_npv (all_cash_deal\<lparr>vacancy := 9\<rparr>) Equity_Multiple
       = Inr (145357727 / 146093750)"
    by (simp add: all_cash_deal_def example_deal_def script_defs sens_defs power2_eq_square)
  have e: "one_way_result npf_irr npf_npv all_cash_deal Vacancy_Rate Equity_Multiple x
       = Inr (59985733 / 58437500)" for x
    by (simp add: all_cash_deal_def example_deal_def script_defs sens_defs power2_eq_square)
  from a b c d e show ?thesis by simp
qed

section \<open>Two-way sensitivity\<close>

lemma run_years_map:
  assumes "\<And>y b row b'. y \<in> set ys \<Longrightarrow> body y b = Inr (row, b') \<Longrightarrow> P row = f y"
    and "run_years body ys b = Inr (rows, fb)"
  shows "map P rows = map f ys"
  using assms
proof (induction ys arbitrary: b rows)
  case Nil
  then show ?case by simp
next
  case (Cons y ys)
  from Cons.prems(2) obtain row b' rest where
    1: "body y b = Inr (row, b')" and 2: "run_years body ys b' = Inr (rest, fb)"
    and 3: "rows = row # rest"
    by (auto split: sum.splits prod.splits)
  have "P row = f y" using Cons.prems(1)[OF _ 1] by simp
  moreover have "map P rest = map f ys"
    using Cons.IH[OF _ 2] Cons.prems(1) by simp
  ultimately show ?case using 3 by simp
qed

lemma cash_flow_year_of_deal:
  assumes "cash_flow_year (property_type d) (unit_rents d) (annual_rent_total d) (rent_growth d)
             (vacancy d) (opex_per_unit_or_sf d) (opex_growth d) (units_or_sf d) (management_fee d)
             (capex_per_unit_or_sf d) (loan_amount d) (interest_rate d) (amortization d)
             (io_period d) (equity_required d) (tax_rate d) (annual_depreciation d) mr y b
           = Inr (row, b')"
    and "opex_growth d = rent_growth d"
  shows "NOI row = year_1_noi d * (1 + rent_growth d / 100) powi (y - 1)"
    and "\<exists>ds. calculate_debt_service y (loan_amount d) (interest_rate d) (amortization d) (io_period d) = Inr ds
              \<and> BTCF row = year_1_noi d * (1 + rent_growth d / 100) powi (y - 1) - capex_annual d - ds"
proof -
  let ?g = "(1 + rent_growth d / 100) powi (y - 1)"
  have gri: "(if property_type d = Single_Family \<or> property_type d = Multifamily
              then sum_list (map (\<lambda>rent. rent * ?g) (unit_rents d)) * 12
              else annual_rent_total d * ?g) = annual_rent_total d * ?g"
    by (simp add: annual_rent_total_def sum_list_mult_const)
  obtain ds ie pp where ds: "calculate_debt_service y (loan_amount d) (interest_rate d) (amortization d) (io_period d) = Inr ds"
    and row: "row = \<lparr>Year = y, Gross_Income = annual_rent_total d * ?g,
         EGI = annual_rent_total d * ?g * (1 - vacancy d / 100),
         OpEx = (if property_type d = Single_Family then opex_per_unit_or_sf d * ?g
                 else opex_per_unit_or_sf d * of_int (units_or_sf d) * ?g),
         Mgmt_Fees = annual_rent_total d * ?g * (1 - vacancy d / 100) * (management_fee d / 100),
         CapEx = capex_annual d,
         NOI = annual_rent_total d * ?g * (1 - vacancy d / 100)
               - (if property_type d = Single_Family then opex_per_unit_or_sf d * ?g
                  else opex_per_unit_or_sf d * of_int (units_or_sf d) * ?g)
               - annual_rent_total d * ?g * (1 - vacancy d / 100) * (management_fee d / 100),
         Debt_Service = ds,
         BTCF = annual_rent_total d * ?g * (1 - vacancy d / 100)
               - (if property_type d = Single_Family then opex_per_unit_or_sf d * ?g
                  else opex_per_unit_or_sf d * of_int (units_or_sf d) * ?g)
               - annual_rent_total d * ?g * (1 - vacancy d / 100) * (management_fee d / 100)
               - capex_annual d - ds,
         Taxes = Taxes row, ATCF = ATCF row, CoC_Return = CoC_Return row\<rparr>"
    using assms unfolding cash_flow_year_def Let_def gri capex_annual_def
    by (auto split: sum.splits prod.splits)
  have n: "NOI row = year_1_noi d * ?g"
    by (subst row) (simp add: year_1_noi_def year_1_egi_def year_1_gri_def year_1_opex_def
        year_1_mgmt_def algebra_simps)
  show "NOI row = year_1_noi d * ?g" by (rule n)
  have "BTCF row = NOI row - capex_annual d - ds" by (subst row, subst (2) row) simp
  with n ds show "\<exists>ds. calculate_debt_service y (loan_amount d) (interest_rate d) (amortization d) (io_period d) = Inr ds
              \<and> BTCF row = year_1_noi d * ?g - capex_annual d - ds"
    by simp
qed


lemma debt_service_after_io:
  "io < y \<Longrightarrow> io < 1 \<Longrightarrow> calculate_debt_service y L rate am io = calculate_debt_service 1 L rate am io"
  by (simp add: calculate_debt_service_def)

lemma powi_pred_mult:
  fixes g :: real
  assumes "1 \<le> (h::int)"
  shows "g powi (h - 1) * g = g powi h"
proof -
  have "nat h = Suc (nat (h - 1))" using assms by simp
  then have "g ^ nat h = g ^ nat (h - 1) * g" by simp
  then show ?thesis using assms by (simp add: power_int_nonneg_exp)
qed

text \<open>
  C6. The claim wants the cell with both tested variables at their base values to have the
  metric of the valuation, its sale proceeds computed with the configured selling costs. The
  all-cash deal has selling costs of 2 percent, no tax, no interest-only period, and
  operating expenses growing at the rate of the rents; its base cell (exit cap rate 5.5,
  vacancy 5) reports an equity multiple of about 1.0265 where the valuation has about 1.0659.
  The cell's number is the valuation's for the same deal with selling costs of 6 percent:
  the loop takes 0.94 of the sale price whatever the selling costs are. With selling costs of
  6 percent and operating expenses growing at 2 percent the cell still reports 1.0265, the
  valuation about 1.0320: the cell grows the year-1 net operating income at the rent growth
  rate and never reads the growth rate of the operating expenses.
\<close>

theorem C6_base_cell_differs:
  "base_val all_cash_deal Exit_Cap_Rate = 5.5 \<and> base_val all_cash_deal Vacancy_Rate = 5
   \<and> selling_costs all_cash_deal = 2
   \<and> two_way_cell failing_irr discounted_sum all_cash_deal Exit_Cap_Rate Vacancy_Rate Equity_Multiple 5.5 5
       = Inr (59985733 / 58437500)
   \<and> main_metric failing_irr discounted_sum all_cash_deal Equity_Multiple = Inr (31143943 / 29218750)
   \<and> main_metric failing_irr discounted_sum six_percent_deal Equity_Multiple
       = Inr (59985733 / 58437500)
   \<and> two_way_cell failing_irr discounted_sum slow_opex_deal Exit_Cap_Rate Vacancy_Rate Equity_Multiple 5.5 5
       = Inr (59985733 / 58437500)
   \<and> main_metric failing_irr discounted_sum slow_opex_deal Equity_Multiple = Inr (60305483 / 58437500)"
  by (simp add: slow_opex_deal_def six_percent_deal_def all_cash_deal_def example_deal_def
      script_defs sens_defs base_val_def power2_eq_square)

text \<open>
  Where the two computations do agree. When the valuation yields the metric \<open>v\<close> for a
  deal without tax and without interest-only period, whose operating expenses grow at the
  rate of its rents and whose selling costs are 6 percent, with a positive exit cap rate and
  positive equity, the base cell yields \<open>v\<close> too. So for such deals the constant 0.94 and
  the growth of the operating expenses are the only places where the cell leaves the
  valuation.
\<close>

lemma base_cell_agrees_at_six_percent:
  assumes main: "main_metric npf_irr npf_npv d m = Inr v"
    and tax: "tax_rate d \<le> 0"
    and og: "opex_growth d = rent_growth d"
    and io: "io_period d \<le> 0"
    and sc: "selling_costs d = 6"
    and ex: "0 < exit_cap_rate d"
    and eq: "0 < equity_required d"
    and v1: "val1 = base_val d var1"
    and v2: "val2 = base_val d var2"
  shows "two_way_cell npf_irr npf_npv d var1 var2 m val1 val2 = Inr v"
proof -
  let ?G = "1 + rent_growth d / 100"
  let ?h = "holding_period d"
  let ?body = "cash_flow_year (property_type d) (unit_rents d) (annual_rent_total d) (rent_growth d)
             (vacancy d) (opex_per_unit_or_sf d) (opex_growth d) (units_or_sf d) (management_fee d)
             (capex_per_unit_or_sf d) (loan_amount d) (interest_rate d) (amortization d)
             (io_period d) (equity_required d) (tax_rate d) (annual_depreciation d)
             (if interest_rate d > 0 then interest_rate d / 100 / 12 else 0)"
  from main obtain nsp series where nsp: "net_sale_proceeds d = Inr nsp"
    and series: "yearly_series d = Inr series"
    by (cases m) (auto simp: main_metric_def irr_def npv_def cash_flows_def equity_multiple_def
        split: sum.splits)
  from series tax obtain rows where rows: "cf_df d = Inr rows" and ser: "series = map BTCF rows"
    by (auto simp: yearly_series_def split: sum.splits)
  from rows obtain fb where run: "run_years ?body [1..?h] (loan_amount d) = Inr (rows, fb)"
    by (auto simp: cf_df_def calculate_cash_flows_def calculate_cash_flows_state_def Let_def
        split: sum.splits prod.splits)
  from nsp obtain sp rb where sp: "sale_price d = Inr sp" and rb: "remaining_balance d = Inr rb"
    and nsp_eq: "nsp = sp - sp * (selling_costs d / 100) - rb"
    by (auto simp: net_sale_proceeds_def sale_costs_def split: sum.splits)
  from sp rows ex have ne: "rows \<noteq> []"
    and sp_eq: "sp = NOI (last rows) * ?G / (exit_cap_rate d / 100)"
    by (auto simp: sale_price_def terminal_noi_def final_noi_def py_div_def split: sum.splits if_splits)
  have nois: "map NOI rows = map (\<lambda>y. year_1_noi d * ?G powi (y - 1)) [1..?h]"
  proof (rule run_years_map[OF _ run])
    fix y b row b'
    assume "?body y b = Inr (row, b')"
    from cash_flow_year_of_deal(1)[OF this og]
    show "NOI row = year_1_noi d * ?G powi (y - 1)" .
  qed
  from ne nois have h1: "1 \<le> ?h" by (cases "1 \<le> ?h") auto
  then have up: "[1..?h] = 1 # [2..?h]" by (simp add: upto_rec1)
  from run obtain row1 b1 where "?body 1 (loan_amount d) = Inr (row1, b1)"
    unfolding up by (auto split: sum.splits prod.splits)
  from cash_flow_year_of_deal(2)[OF this og] obtain ds1 where
    ds1: "calculate_debt_service 1 (loan_amount d) (interest_rate d) (amortization d) (io_period d) = Inr ds1"
    by blast
  have btcf: "map BTCF rows = map (\<lambda>y. year_1_noi d * ?G powi (y - 1) - capex_annual d - ds1) [1..?h]"
  proof (rule run_years_map[OF _ run])
    fix y b row b'
    assume y: "y \<in> set [1..?h]" and r: "?body y b = Inr (row, b')"
    from cash_flow_year_of_deal(2)[OF r og] obtain ds where
      a: "calculate_debt_service y (loan_amount d) (interest_rate d) (amortization d) (io_period d) = Inr ds"
      and b: "BTCF row = year_1_noi d * ?G powi (y - 1) - capex_annual d - ds"
      by blast
    from y io have "io_period d < y" "io_period d < 1" by simp_all
    from debt_service_after_io[OF this] a ds1 have "ds = ds1" by simp
    with b show "BTCF row = year_1_noi d * ?G powi (y - 1) - capex_annual d - ds1" by simp
  qed
  have "NOI (last rows) = last (map NOI rows)" using ne by (simp add: last_map)
  also have "\<dots> = year_1_noi d * ?G powi (?h - 1)"
    unfolding nois using h1 by (simp add: last_map upto_rec2)
  finally have last_noi: "NOI (last rows) = year_1_noi d * ?G powi (?h - 1)" .
  have sale: "sp = year_1_noi d * (?G powi ?h) / (exit_cap_rate d / 100)"
    unfolding sp_eq last_noi using powi_pred_mult[OF h1, of ?G] by (simp add: mult.assoc)
  have proceeds: "nsp = sp * 0.94 - rb" unfolding nsp_eq sc by simp
  have tv: "(if var1 \<noteq> Rent_Growth_Rate \<and> var2 \<noteq> Rent_Growth_Rate then rent_growth d
             else if var1 = Rent_Growth_Rate then val1 else val2) = rent_growth d"
       "(if var1 \<noteq> Exit_Cap_Rate \<and> var2 \<noteq> Exit_Cap_Rate then exit_cap_rate d
             else if var1 = Exit_Cap_Rate then val1 else val2) = exit_cap_rate d"
       "(if var1 \<noteq> Interest_Rate \<and> var2 \<noteq> Interest_Rate then interest_rate d
             else if var1 = Interest_Rate then val1 else val2) = interest_rate d"
    using v1 v2 by (auto simp: base_val_def)
  have cf_list: "map (\<lambda>v. v - ds1) (map (\<lambda>v. v - capex_annual d)
                   (map (\<lambda>year. year_1_noi d * (?G powi (year - 1))) [1..?h])) = series"
    unfolding ser btcf by simp
  have exn: "exit_cap_rate d / 100 \<noteq> 0" using ex by simp
  have sens: "sensitivity_result npf_irr npf_npv d m (rent_growth d) (exit_cap_rate d) np ds1 rb
        = (case m of
             IRR \<Rightarrow> (case npf_irr (add_to_last ([- equity_required d] @ series) nsp) of
                        Inl e \<Rightarrow> if e = Non_Finite then Inl Non_Finite else Inr 0
                      | Inr v \<Rightarrow> Inr (v * 100))
           | NPV \<Rightarrow> (case npf_npv (discount_rate d / 100) (add_to_last ([- equity_required d] @ series) nsp) of
                        Inl e \<Rightarrow> if e = Non_Finite then Inl Non_Finite else Inr 0
                      | Inr v \<Rightarrow> Inr v)
           | Equity_Multiple \<Rightarrow> Inr ((sum_list series + nsp) / equity_required d))" for np
    unfolding sensitivity_result_def Let_def cf_list proceeds sale
    using exn eq by (cases m) (simp_all add: np_div_def py_div_def)
  have cell: "two_way_cell npf_irr npf_npv d var1 var2 m val1 val2
        = sensitivity_result npf_irr npf_npv d m (rent_growth d) (exit_cap_rate d)
            (var1 = Rent_Growth_Rate \<or> var2 = Rent_Growth_Rate
              \<or> var1 = Exit_Cap_Rate \<or> var2 = Exit_Cap_Rate) ds1 rb"
    unfolding two_way_cell_def Let_def tv rb ds1 by simp
  have flows: "cash_flows d = Inr (add_to_last ([- equity_required d] @ series) nsp)"
    by (simp add: cash_flows_def nsp series)
  have em: "equity_multiple d = Inr ((sum_list series + nsp) / equity_required d)"
    using eq by (simp add: equity_multiple_def nsp series equity_multiple_expr_def py_div_def)
  show ?thesis
    unfolding cell sens using main
    by (cases m) (auto simp: main_metric_def irr_def npv_def flows em split: sum.splits)
qed


end
